theory Spec2Isabelle
  imports Complex_Main
begin

section \<open>Python values shared by the modules\<close>

text \<open>
  The exceptions the modelled code can raise. A fallible method returns
  \<open>py_error + 'a\<close>, with \<open>Inl\<close> for the raised exception.
\<close>

datatype py_error = ZeroDivisionError | IndexError | ValueError

text \<open>
  Python's one-argument \<open>round\<close>: the nearest integer, a tie going to the even
  neighbour. The argument is the exact value of the number that is rounded.
\<close>

definition py_round :: "rat \<Rightarrow> int" where
  "py_round x =
     (let f = \<lfloor>x\<rfloor>; d = x - of_int f
      in if d < 1 / 2 then f
         else if 1 / 2 < d then f + 1
         else if even f then f else f + 1)"

section \<open>mouse_interpreter.py\<close>

text \<open>
  The dataclass \<open>MouseInterpreter\<close>. \<open>MouseInput\<close> is an integer pixel coordinate.
  \<open>Interpreted\<close> values and \<open>pixels_in_unit\<close> are Python floats; in this section
  their arithmetic is taken exactly, over the rationals (no rounding error, no
  infinities or NaN). The fields \<open>min\<close> and \<open>max\<close> carry the suffix \<open>_i\<close>.
\<close>

record MouseInterpreter =
  min_i :: rat
  max_i :: rat
  mouse_origin :: int
  start_value :: rat
  pixels_in_unit :: rat

text \<open>\<open>_delta\<close>: the division raises \<open>ZeroDivisionError\<close> when \<open>pixels_in_unit\<close> is 0.\<close>

definition delta :: "MouseInterpreter \<Rightarrow> int \<Rightarrow> py_error + rat" where
  "delta self mouse =
     (if pixels_in_unit self = 0 then Inl ZeroDivisionError
      else Inr (of_int (mouse - mouse_origin self) / pixels_in_unit self))"

text \<open>
  \<open>_recalibrate\<close>: two tests in sequence, the second one reading the origin the
  first one may have written. The method returns nothing; the model returns the
  updated object.
\<close>

definition recalibrate :: "MouseInterpreter \<Rightarrow> rat \<Rightarrow> MouseInterpreter" where
  "recalibrate self val =
     (let d1 = (min_i self - val) * pixels_in_unit self;
          self1 = (if 0 < d1
                   then self\<lparr>mouse_origin := py_round (of_int (mouse_origin self) - d1)\<rparr>
                   else self);
          d2 = (max_i self1 - val) * pixels_in_unit self1
      in if d2 < 0
         then self1\<lparr>mouse_origin := py_round (of_int (mouse_origin self1) - d2)\<rparr>
         else self1)"

text \<open>\<open>_clip\<close>: \<open>min(max(self.min, value), self.max)\<close>.\<close>

definition clip :: "MouseInterpreter \<Rightarrow> rat \<Rightarrow> rat" where
  "clip self val = min (max (min_i self) val) (max_i self)"

text \<open>
  \<open>interpret\<close> (here \<open>interpret_mouse\<close>) returns the clipped value together
  with the object as the call leaves it. When \<open>_delta\<close> raises, nothing has
  been written yet. \<open>raw_value\<close> names what the local variable \<open>value\<close> of
  \<open>interpret\<close> holds when the division is defined.
\<close>

definition raw_value :: "MouseInterpreter \<Rightarrow> int \<Rightarrow> rat" where
  "raw_value self mouse =
     start_value self + of_int (mouse - mouse_origin self) / pixels_in_unit self"

definition interpret_mouse :: "MouseInterpreter \<Rightarrow> int \<Rightarrow> py_error + (rat \<times> MouseInterpreter)" where
  "interpret_mouse self mouse =
     (case delta self mouse of
        Inl e \<Rightarrow> Inl e
      | Inr d \<Rightarrow>
          (let val = start_value self + d
           in Inr (clip (recalibrate self val) val, recalibrate self val)))"

section \<open>slider_values.py\<close>


text \<open>
  \<open>RangeSliderValues\<close>: \<open>min\<close>, \<open>max\<close> and the private \<open>__default\<close>, the
  midpoint. Floats are exact rationals here as well.
\<close>

record RangeSliderValues =
  min_r :: rat
  max_r :: rat
  default_r :: rat


definition RangeSliderValues_at :: "RangeSliderValues \<Rightarrow> rat \<Rightarrow> rat" where
  "RangeSliderValues_at self val =
     (if \<not> (min_r self \<le> val \<and> val \<le> max_r self) then default_r self else val)"

definition RangeSliderValues_index :: "RangeSliderValues \<Rightarrow> rat \<Rightarrow> rat" where
  "RangeSliderValues_index self val =
     (if \<not> (min_r self \<le> val \<and> val \<le> max_r self) then default_r self else val)"

text \<open>
  The elements of a controlled list are arbitrary Python objects, compared with
  \<open>==\<close>. A number (\<open>Num\<close>) equals another number of the same value, whatever its
  Python type; any other object (\<open>Obj\<close>, an enum member, a string) never equals a
  number. The default of \<open>ListSliderValues\<close> is the number 0.
\<close>

datatype 'a controlled = Num rat | Obj 'a

text \<open>\<open>xs[i]\<close>: a negative index counts from the end; out of range raises.\<close>

definition py_getitem :: "'a list \<Rightarrow> int \<Rightarrow> py_error + 'a" where
  "py_getitem xs i =
     (let n = int (length xs); j = (if i < 0 then i + n else i)
      in if 0 \<le> j \<and> j < n then Inr (xs ! nat j) else Inl IndexError)"

text \<open>\<open>xs.index(v)\<close>: the first position holding a value equal to \<open>v\<close>, or \<open>ValueError\<close>.\<close>

fun py_list_index :: "'a list \<Rightarrow> 'a \<Rightarrow> py_error + nat" where
  "py_list_index [] v = Inl ValueError"
| "py_list_index (x # xs) v =
     (if x = v then Inr 0
      else case py_list_index xs v of Inl e \<Rightarrow> Inl e | Inr i \<Rightarrow> Inr (Suc i))"

record 'a ListSliderValues =
  values_l :: "'a controlled list"
  min_l :: rat
  default_l :: rat

definition ListSliderValues_init :: "'a controlled list \<Rightarrow> 'a ListSliderValues" where
  "ListSliderValues_init vals = \<lparr>values_l = vals, min_l = - (49 / 100), default_l = 0\<rparr>"

text \<open>The property \<open>max\<close>, read from the current length at every use.\<close>

definition max_l :: "'a ListSliderValues \<Rightarrow> rat" where
  "max_l self = of_nat (length (values_l self)) - 51 / 100"

definition ListSliderValues_at :: "'a ListSliderValues \<Rightarrow> rat \<Rightarrow> py_error + 'a controlled" where
  "ListSliderValues_at self val =
     (let v = (if \<not> (min_l self \<le> val \<and> val \<le> max_l self) then default_l self else val)
      in py_getitem (values_l self) (py_round v))"

definition ListSliderValues_index :: "'a ListSliderValues \<Rightarrow> 'a controlled \<Rightarrow> py_error + rat" where
  "ListSliderValues_index self val =
     (let v = (if val \<notin> set (values_l self) then Num (default_l self) else val)
      in case py_list_index (values_l self) v of
           Inl e \<Rightarrow> Inl e
         | Inr i \<Rightarrow> Inr (of_nat i))"

section \<open>slider_handler.py\<close>

text \<open>
  \<open>_start_after_deadzone\<close> runs in its own thread and sees the rest of the
  program through two reads: the cursor (\<open>read_mouse\<close>) and the flag
  \<open>__working\<close>, which \<open>stop\<close> clears from another thread. One pass of its
  \<open>while\<close> loop reads the cursor in the loop test and, when the body runs, the
  flag; a \<open>tick\<close> holds what one pass reads, and the environment is the list of
  ticks in the order they happen. The deadzone is a number of the slider's
  configuration.
\<close>

record tick =
  cursor :: int
  working :: bool

text \<open>
  Where the thread is after the given ticks: it has returned (\<open>Idle\<close>), it has
  left the loop and called \<open>_value_setting_loop\<close> (\<open>Tracking\<close>), or it is still
  in the loop (\<open>DeadzoneWait\<close>).
\<close>

datatype phase = Idle | DeadzoneWait | Tracking

fun deadzone_loop :: "rat \<Rightarrow> int \<Rightarrow> tick list \<Rightarrow> phase" where
  "deadzone_loop deadzone start_point [] = DeadzoneWait"
| "deadzone_loop deadzone start_point (t # ts) =
     (if of_int \<bar>start_point - cursor t\<bar> \<le> deadzone
      then (if \<not> working t then Idle else deadzone_loop deadzone start_point ts)
      else Tracking)"

text \<open>The first read of the cursor is the start point.\<close>

definition start_after_deadzone :: "rat \<Rightarrow> int \<Rightarrow> tick list \<Rightarrow> phase" where
  "start_after_deadzone deadzone first_read ticks = deadzone_loop deadzone first_read ticks"

section \<open>Python floats as IEEE 754 doubles\<close>

text \<open>
  The number of items \<open>AngleIterator\<close> yields depends on the rounding of every
  float operation, so this module is modelled with the doubles Python computes
  with. A finite double is the rational it denotes; an operation is the exact
  operation followed by \<open>fl\<close>, rounding to the nearest double, ties to the even
  significand. \<open>fl\<close> brings the magnitude into \<open>[2^52, 2^53)\<close> by halving and
  doubling, stopping at the exponent of the subnormal numbers, and rounds the
  scaled value to an integer. Values beyond the largest double (Python's \<open>inf\<close>
  or \<open>OverflowError\<close>) are outside this model: no operation below reaches them.
\<close>

function scale_down :: "rat \<Rightarrow> int \<Rightarrow> rat \<times> int" where
  "scale_down x e = (if 2 ^ 53 \<le> x then scale_down (x / 2) (e + 1) else (x, e))"
  by pat_completeness auto
termination
proof (relation "measure (\<lambda>(x, e). nat \<lceil>x\<rceil>)")
  show "wf (measure (\<lambda>(x :: rat, e :: int). nat \<lceil>x\<rceil>))"
    by simp
next
  fix x :: rat and e :: int
  assume big: "2 ^ 53 \<le> x"
  then have "x / 2 + 1 \<le> x"
    by simp
  then have "\<lceil>x / 2\<rceil> < \<lceil>x\<rceil>"
    by (metis add.commute ceiling_mono ceiling_add_one less_le_trans zless_add1_eq order_refl)
  moreover have "0 < \<lceil>x\<rceil>"
    using big by (simp add: ceiling_less_iff less_ceiling_iff)
  ultimately show "((x / 2, e + 1), (x, e)) \<in> measure (\<lambda>(x, e). nat \<lceil>x\<rceil>)"
    by simp
qed

function scale_up :: "rat \<Rightarrow> int \<Rightarrow> rat \<times> int" where
  "scale_up x e = (if x < 2 ^ 52 \<and> - 1074 < e then scale_up (2 * x) (e - 1) else (x, e))"
  by pat_completeness auto
termination
  by (relation "measure (\<lambda>(x, e). nat (e + 1074))") auto

definition pow2 :: "int \<Rightarrow> rat" where
  "pow2 e = (if 0 \<le> e then 2 ^ nat e else 1 / 2 ^ nat (- e))"

definition fl :: "rat \<Rightarrow> rat" where
  "fl x =
     (if x = 0 then 0
      else (let (y, e) = scale_down \<bar>x\<bar> 0; (z, k) = scale_up y e
            in sgn x * of_int (py_round z) * pow2 k))"

definition fadd :: "rat \<Rightarrow> rat \<Rightarrow> rat" where
  "fadd x y = fl (x + y)"

text \<open>\<open>a / b\<close> on two Python ints: the correctly rounded quotient.\<close>

definition int_truediv :: "int \<Rightarrow> int \<Rightarrow> py_error + rat" where
  "int_truediv a b = (if b = 0 then Inl ZeroDivisionError else Inr (fl (of_int a / of_int b)))"

section \<open>angle_iterator.py\<close>

record AngleIterator =
  center_distance :: int
  radius :: int
  amount :: int

text \<open>
  \<open>_float_range\<close>: the generator runs while \<open>start < end\<close> and nothing in it
  bounds the number of passes, so the model counts them down from a fuel:
  \<open>None\<close> when the generator is not exhausted within that many items, otherwise
  the items it yields. The parameter \<open>end\<close> is \<open>end_v\<close>.
\<close>

fun float_range :: "nat \<Rightarrow> rat \<Rightarrow> rat \<Rightarrow> rat \<Rightarrow> rat list option" where
  "float_range 0 start end_v step = (if start < end_v then None else Some [])"
| "float_range (Suc fuel) start end_v step =
     (if start < end_v
      then map_option ((#) start) (float_range fuel (fadd start step) end_v step)
      else Some [])"

text \<open>
  \<open>__iter__\<close>. \<open>_center_from_angle\<close> goes through \<open>math.sin\<close> and \<open>math.cos\<close>;
  it is the parameter \<open>center_from_angle\<close>.
\<close>

definition AngleIterator_iter ::
  "nat \<Rightarrow> (AngleIterator \<Rightarrow> rat \<Rightarrow> 'p) \<Rightarrow> AngleIterator \<Rightarrow> py_error + (int \<times> 'p) list option" where
  "AngleIterator_iter fuel center_from_angle self =
     (case int_truediv 360 (amount self) of
        Inl e \<Rightarrow> Inl e
      | Inr step \<Rightarrow>
          Inr (map_option (map (\<lambda>angle. (py_round angle, center_from_angle self angle)))
                 (float_range fuel 0 360 step)))"

section \<open>Rounding\<close>

lemma py_round_of_int: "py_round (of_int n) = n"
  by (simp add: py_round_def)


lemma floor_numeral_div: "\<lfloor>numeral a / numeral b :: rat\<rfloor> = numeral a div numeral b"
  using floor_divide_of_int_eq [of "numeral a" "numeral b", where ?'a = rat] by simp

section \<open>Properties of mouse_interpreter.py\<close>

lemma recalibrate_frame:
  "recalibrate self val = self\<lparr>mouse_origin := mouse_origin (recalibrate self val)\<rparr>"
  by (simp add: recalibrate_def Let_def)

lemma clip_recalibrate: "clip (recalibrate self x) y = clip self y"
  by (simp add: clip_def recalibrate_def Let_def)

lemma interpret_mouse_eq:
  assumes "pixels_in_unit self \<noteq> 0"
  shows "interpret_mouse self mouse
           = Inr (clip self (raw_value self mouse), recalibrate self (raw_value self mouse))"
  using assms by (simp add: interpret_mouse_def delta_def raw_value_def Let_def clip_recalibrate)

lemma interpret_mouse_Inr:
  assumes "interpret_mouse self mouse = Inr (r, self')"
  shows "pixels_in_unit self \<noteq> 0 \<and> r = clip self (raw_value self mouse)
           \<and> self' = recalibrate self (raw_value self mouse)"
proof -
  have nz: "pixels_in_unit self \<noteq> 0"
    using assms by (auto simp: interpret_mouse_def delta_def split: if_splits)
  show ?thesis
    using assms nz interpret_mouse_eq [OF nz, of mouse] by simp
qed










text \<open>
  C1, as the spec states it: over \<open>Range(min=0, max=100)\<close> with \<open>pixels_in_unit = 1\<close>,
  \<open>start_value = 50\<close> and \<open>mouse_origin = 0\<close>, \<open>interpret(200)\<close> followed by
  \<open>interpret(0)\<close> returns 50. The code does not: the first call returns 100 and
  moves the origin to 150, and the second call does not return 50.
\<close>

theorem full_reversal_counterexample:
  "interpret_mouse \<lparr>min_i = 0, max_i = 100, mouse_origin = 0, start_value = 50, pixels_in_unit = 1\<rparr> 200
     = Inr (100, \<lparr>min_i = 0, max_i = 100, mouse_origin = 150, start_value = 50, pixels_in_unit = 1\<rparr>)
   \<and> fst (projr (interpret_mouse
        \<lparr>min_i = 0, max_i = 100, mouse_origin = 150, start_value = 50, pixels_in_unit = 1\<rparr> 0)) \<noteq> 50"
  by (simp add: interpret_mouse_def delta_def recalibrate_def clip_def py_round_def Let_def)

text \<open>
  C1, amended: with the same interpreter, \<open>interpret(200)\<close> returns 100 and leaves
  \<open>mouse_origin = 150\<close>; the following \<open>interpret(0)\<close> returns 0, the lower bound,
  and leaves \<open>mouse_origin = 50\<close>. The pointer does not have to retrace the
  distance it travelled beyond the bound.
\<close>

theorem full_reversal_returns_min:
  "interpret_mouse \<lparr>min_i = 0, max_i = 100, mouse_origin = 0, start_value = 50, pixels_in_unit = 1\<rparr> 200
     = Inr (100, \<lparr>min_i = 0, max_i = 100, mouse_origin = 150, start_value = 50, pixels_in_unit = 1\<rparr>)
   \<and> interpret_mouse \<lparr>min_i = 0, max_i = 100, mouse_origin = 150, start_value = 50, pixels_in_unit = 1\<rparr> 0
     = Inr (0, \<lparr>min_i = 0, max_i = 100, mouse_origin = 50, start_value = 50, pixels_in_unit = 1\<rparr>)"
  by (simp add: interpret_mouse_def delta_def recalibrate_def clip_def py_round_def Let_def)







text \<open>
  C7. With \<open>min \<le> max\<close>, \<open>_clip\<close> is the identity on \<open>[min, max]\<close>, gives \<open>min\<close>
  below it and \<open>max\<close> above it; \<open>interpret\<close> returns whenever \<open>pixels_in_unit\<close> is
  not 0, and every value it returns lies in \<open>[min, max]\<close>.
\<close>

theorem clip_postcondition:
  assumes "min_i self \<le> max_i self"
  shows "(min_i self \<le> v \<and> v \<le> max_i self \<longrightarrow> clip self v = v)
       \<and> (v < min_i self \<longrightarrow> clip self v = min_i self)
       \<and> (max_i self < v \<longrightarrow> clip self v = max_i self)
       \<and> (pixels_in_unit self \<noteq> 0 \<longrightarrow> (\<exists>r self'. interpret_mouse self mouse = Inr (r, self')))
       \<and> (\<forall>r self'. interpret_mouse self mouse = Inr (r, self')
             \<longrightarrow> min_i self \<le> r \<and> r \<le> max_i self)"
proof -
  have frame: "min_i (recalibrate self x) = min_i self \<and> max_i (recalibrate self x) = max_i self" for x
    by (simp add: recalibrate_def Let_def)
  have rng: "min_i self \<le> clip (recalibrate self x) x \<and> clip (recalibrate self x) x \<le> max_i self" for x
    using assms by (simp add: clip_def frame)
  have ret: "\<forall>r self'. interpret_mouse self mouse = Inr (r, self')
               \<longrightarrow> min_i self \<le> r \<and> r \<le> max_i self"
    using rng by (auto simp: interpret_mouse_def Let_def split: sum.splits)
  have tot: "pixels_in_unit self \<noteq> 0 \<longrightarrow> (\<exists>r self'. interpret_mouse self mouse = Inr (r, self'))"
    by (simp add: interpret_mouse_def delta_def Let_def)
  show ?thesis
    using assms ret tot by (simp add: clip_def)
qed

theorem clip_postcondition_witness:
  "clip \<lparr>min_i = 0, max_i = 100, mouse_origin = 0, start_value = 50, pixels_in_unit = 1\<rparr> 150 = 100
   \<and> clip \<lparr>min_i = 0, max_i = 100, mouse_origin = 0, start_value = 50, pixels_in_unit = 1\<rparr> (- 3) = 0
   \<and> (\<exists>r self'. interpret_mouse
          \<lparr>min_i = 0, max_i = 100, mouse_origin = 0, start_value = 50, pixels_in_unit = 1\<rparr> 200 = Inr (r, self'))"
proof -
  let ?a = "\<lparr>min_i = 0, max_i = 100, mouse_origin = 0, start_value = 50, pixels_in_unit = 1\<rparr>"
  have h: "min_i ?a \<le> max_i ?a"
    by simp
  show ?thesis
    using clip_postcondition [OF h, of 150 200] clip_postcondition [OF h, of "- 3" 200] by simp
qed

text \<open>
  C9. A call of \<open>interpret\<close> that returns leaves \<open>start_value\<close>, \<open>min\<close>, \<open>max\<close>
  and \<open>pixels_in_unit\<close> as they were: the object after the call is the object
  before it with, at most, another \<open>mouse_origin\<close>.
\<close>

theorem interpret_frame:
  assumes "interpret_mouse self mouse = Inr (r, self')"
  shows "start_value self' = start_value self \<and> min_i self' = min_i self
       \<and> max_i self' = max_i self \<and> pixels_in_unit self' = pixels_in_unit self
       \<and> self' = self\<lparr>mouse_origin := mouse_origin self'\<rparr>"
proof -
  have self': "self' = recalibrate self (raw_value self mouse)"
    using interpret_mouse_Inr [OF assms] by simp
  have "self' = self\<lparr>mouse_origin := mouse_origin self'\<rparr>"
    using recalibrate_frame [of self "raw_value self mouse"] by (simp add: self')
  then show ?thesis
    by (metis MouseInterpreter.select_convs MouseInterpreter.surjective MouseInterpreter.update_convs(3))
qed

theorem interpret_frame_witness:
  "start_value \<lparr>min_i = 0, max_i = 100, mouse_origin = 150, start_value = 50, pixels_in_unit = 1\<rparr> = 50
   \<and> interpret_mouse \<lparr>min_i = 0, max_i = 100, mouse_origin = 0, start_value = 50, pixels_in_unit = 1\<rparr> 200
       = Inr (100, \<lparr>min_i = 0, max_i = 100, mouse_origin = 150, start_value = 50, pixels_in_unit = 1\<rparr>)"
proof -
  let ?a = "\<lparr>min_i = 0, max_i = 100, mouse_origin = 0, start_value = 50, pixels_in_unit = 1\<rparr>"
  let ?b = "\<lparr>min_i = 0, max_i = 100, mouse_origin = 150, start_value = 50, pixels_in_unit = 1\<rparr>"
  have h: "interpret_mouse ?a 200 = Inr (100, ?b)"
    by (simp add: interpret_mouse_def delta_def recalibrate_def clip_def py_round_def Let_def)
  show ?thesis
    using interpret_frame [OF h] h by simp
qed

section \<open>Properties of slider_values.py\<close>

lemma py_getitem_nat: "i < length xs \<Longrightarrow> py_getitem xs (int i) = Inr (xs ! i)"
  by (simp add: py_getitem_def Let_def)

lemma py_list_index_mem:
  "e \<in> set xs \<Longrightarrow>
     \<exists>i. py_list_index xs e = Inr i \<and> i < length xs \<and> xs ! i = e \<and> (\<forall>j<i. xs ! j \<noteq> e)"
proof (induction xs)
  case Nil
  then show ?case by simp
next
  case (Cons x xs)
  show ?case
  proof (cases "x = e")
    case True
    then show ?thesis by simp
  next
    case False
    then have "e \<in> set xs"
      using Cons.prems by simp
    then obtain i where i: "py_list_index xs e = Inr i" "i < length xs" "xs ! i = e"
        "\<forall>j<i. xs ! j \<noteq> e"
      using Cons.IH by blast
    have "\<forall>j<Suc i. (x # xs) ! j \<noteq> e"
      using False i(4) by (auto simp: nth_Cons split: nat.splits)
    then show ?thesis
      using False i by auto
  qed
qed

lemma py_list_index_absent: "e \<notin> set xs \<Longrightarrow> py_list_index xs e = Inl ValueError"
  by (induction xs) auto





text \<open>
  \<open>index\<close> with a value that is not in the list looks up the default, the number
  0, as a value: it raises unless the list holds a 0, and then returns the
  position of that 0.
\<close>

lemma index_of_absent_value:
  "ListSliderValues_index (ListSliderValues_init [Obj ''c'', Obj ''d'']) (Num 7) = Inl ValueError
   \<and> ListSliderValues_index (ListSliderValues_init [Num 5, Num 0 :: unit controlled]) (Num 9) = Inr 1"
  by (simp add: ListSliderValues_index_def ListSliderValues_init_def Let_def)

text \<open>
  C4. For \<open>min \<le> v \<le> max\<close>, \<open>at(index(v)) = v\<close> on a range; for an element \<open>e\<close> of
  the list, \<open>index(e)\<close> is the position of the first element equal to \<open>e\<close> and
  \<open>at(index(e)) = e\<close>.
\<close>

theorem at_index_roundtrip:
  "(min_r s \<le> v \<and> v \<le> max_r s \<longrightarrow> RangeSliderValues_at s (RangeSliderValues_index s v) = v)
   \<and> (e \<in> set vals \<longrightarrow>
        (\<exists>i. i < length vals \<and> vals ! i = e \<and> (\<forall>j<i. vals ! j \<noteq> e)
           \<and> ListSliderValues_index (ListSliderValues_init vals) e = Inr (of_nat i)
           \<and> ListSliderValues_at (ListSliderValues_init vals) (of_nat i) = Inr e))"
proof -
  let ?s = "ListSliderValues_init vals"
  have rng: "min_r s \<le> v \<and> v \<le> max_r s \<longrightarrow> RangeSliderValues_at s (RangeSliderValues_index s v) = v"
    by (simp add: RangeSliderValues_at_def RangeSliderValues_index_def)
  have lst: "\<exists>i. i < length vals \<and> vals ! i = e \<and> (\<forall>j<i. vals ! j \<noteq> e)
           \<and> ListSliderValues_index ?s e = Inr (of_nat i)
           \<and> ListSliderValues_at ?s (of_nat i) = Inr e" if mem: "e \<in> set vals"
  proof -
    obtain i where i: "py_list_index vals e = Inr i" "i < length vals" "vals ! i = e"
        "\<forall>j<i. vals ! j \<noteq> e"
      using py_list_index_mem [OF mem] by blast
    have idx: "ListSliderValues_index ?s e = Inr (of_nat i)"
      using mem i(1) by (simp add: ListSliderValues_index_def ListSliderValues_init_def Let_def)
    have "Suc i \<le> length vals"
      using i(2) by simp
    then have "(of_nat (Suc i) :: rat) \<le> of_nat (length vals)"
      by (simp only: of_nat_le_iff)
    then have "(of_nat i :: rat) + 1 \<le> of_nat (length vals)"
      by simp
    then have inr: "min_l ?s \<le> of_nat i \<and> of_nat i \<le> max_l ?s"
      by (simp add: ListSliderValues_init_def max_l_def)
    have rnd: "py_round (of_nat i) = int i"
      using py_round_of_int [of "int i"] by simp
    have "ListSliderValues_at ?s (of_nat i) = py_getitem vals (int i)"
      using inr by (simp add: ListSliderValues_at_def Let_def rnd) (simp add: ListSliderValues_init_def)
    then have "ListSliderValues_at ?s (of_nat i) = Inr e"
      using py_getitem_nat [OF i(2)] i(3) by simp
    then show ?thesis
      using i idx by blast
  qed
  show ?thesis
    using rng lst by blast
qed

theorem at_index_roundtrip_witness:
  "RangeSliderValues_at \<lparr>min_r = 0, max_r = 100, default_r = 50\<rparr>
      (RangeSliderValues_index \<lparr>min_r = 0, max_r = 100, default_r = 50\<rparr> 30) = 30
   \<and> (\<exists>i. ListSliderValues_index (ListSliderValues_init [Obj ''a'', Obj ''b'', Obj ''a'']) (Obj ''b'') = Inr (of_nat i)
         \<and> ListSliderValues_at (ListSliderValues_init [Obj ''a'', Obj ''b'', Obj ''a'']) (of_nat i) = Inr (Obj ''b''))"
proof -
  let ?s = "\<lparr>min_r = 0, max_r = 100, default_r = 50\<rparr>"
  let ?vs = "[Obj ''a'', Obj ''b'', Obj ''a'']"
  have a: "min_r ?s \<le> 30 \<and> 30 \<le> max_r ?s"
    by simp
  have b: "Obj ''b'' \<in> set ?vs"
    by simp
  show ?thesis
    using at_index_roundtrip [of ?s 30 "Obj ''b''" ?vs] a b by blast
qed

text \<open>
  C10. Over the empty list \<open>min = -0.49\<close> exceeds \<open>max = -0.51\<close>, every call of
  \<open>at\<close> raises (\<open>IndexError\<close>) and every call of \<open>index\<close> raises (\<open>ValueError\<close>).
\<close>

theorem empty_list_raises:
  "ListSliderValues_at (ListSliderValues_init []) val = Inl IndexError
   \<and> ListSliderValues_index (ListSliderValues_init []) c = Inl ValueError
   \<and> max_l (ListSliderValues_init []) < min_l (ListSliderValues_init [])
   \<and> min_l (ListSliderValues_init []) = - (49 / 100)
   \<and> max_l (ListSliderValues_init []) = - (51 / 100)"
  by (simp add: ListSliderValues_at_def ListSliderValues_index_def ListSliderValues_init_def
      max_l_def py_getitem_def py_round_def Let_def)

section \<open>Properties of slider_handler.py\<close>

lemma deadzone_loop_within:
  "\<forall>t\<in>set ticks. of_int \<bar>sp - cursor t\<bar> \<le> dz \<Longrightarrow> deadzone_loop dz sp ticks \<noteq> Tracking"
  by (induction ticks) auto

lemma deadzone_loop_exceeds:
  "\<forall>t\<in>set pre. of_int \<bar>sp - cursor t\<bar> \<le> dz \<and> working t \<Longrightarrow> dz < of_int \<bar>sp - cursor t'\<bar>
     \<Longrightarrow> deadzone_loop dz sp (pre @ t' # post) = Tracking"
  by (induction pre) auto

text \<open>
  C8. As long as every sampled displacement from the start point is at most the
  deadzone, \<open>_value_setting_loop\<close> is not entered; after samples within the
  deadzone with the flag set, a sample strictly beyond the deadzone enters it.
  For a deadzone of \<open>d \<ge> 0\<close> pixels, a displacement of exactly \<open>d\<close> keeps the
  thread waiting and a displacement of \<open>d + 1\<close> enters the loop, on either side.
\<close>

theorem deadzone_gating:
  "((\<forall>t\<in>set ticks. of_int \<bar>sp - cursor t\<bar> \<le> dz) \<longrightarrow> start_after_deadzone dz sp ticks \<noteq> Tracking)
   \<and> ((\<forall>t\<in>set pre. of_int \<bar>sp - cursor t\<bar> \<le> dz \<and> working t) \<and> dz < of_int \<bar>sp - cursor t'\<bar>
        \<longrightarrow> start_after_deadzone dz sp (pre @ t' # post) = Tracking)
   \<and> (0 \<le> d \<longrightarrow>
        start_after_deadzone (of_int d) sp [\<lparr>cursor = sp + d, working = True\<rparr>] = DeadzoneWait
      \<and> start_after_deadzone (of_int d) sp [\<lparr>cursor = sp + d + 1, working = True\<rparr>] = Tracking
      \<and> start_after_deadzone (of_int d) sp [\<lparr>cursor = sp - d, working = True\<rparr>] = DeadzoneWait
      \<and> start_after_deadzone (of_int d) sp [\<lparr>cursor = sp - d - 1, working = True\<rparr>] = Tracking)"
proof -
  have a: "(\<forall>t\<in>set ticks. of_int \<bar>sp - cursor t\<bar> \<le> dz) \<longrightarrow> start_after_deadzone dz sp ticks \<noteq> Tracking"
    using deadzone_loop_within [of ticks sp dz] by (simp add: start_after_deadzone_def)
  have b: "(\<forall>t\<in>set pre. of_int \<bar>sp - cursor t\<bar> \<le> dz \<and> working t) \<and> dz < of_int \<bar>sp - cursor t'\<bar>
        \<longrightarrow> start_after_deadzone dz sp (pre @ t' # post) = Tracking"
    using deadzone_loop_exceeds [of pre sp dz t' post] by (simp add: start_after_deadzone_def)
  have c: "0 \<le> d \<longrightarrow>
        start_after_deadzone (of_int d) sp [\<lparr>cursor = sp + d, working = True\<rparr>] = DeadzoneWait
      \<and> start_after_deadzone (of_int d) sp [\<lparr>cursor = sp + d + 1, working = True\<rparr>] = Tracking
      \<and> start_after_deadzone (of_int d) sp [\<lparr>cursor = sp - d, working = True\<rparr>] = DeadzoneWait
      \<and> start_after_deadzone (of_int d) sp [\<lparr>cursor = sp - d - 1, working = True\<rparr>] = Tracking"
    by (simp add: start_after_deadzone_def)
  show ?thesis
    using a b c by blast
qed

theorem deadzone_gating_witness:
  "start_after_deadzone 5 100 [\<lparr>cursor = 103, working = True\<rparr>, \<lparr>cursor = 105, working = True\<rparr>] \<noteq> Tracking
   \<and> start_after_deadzone 5 100
       ([\<lparr>cursor = 103, working = True\<rparr>, \<lparr>cursor = 105, working = True\<rparr>]
          @ \<lparr>cursor = 106, working = True\<rparr> # []) = Tracking
   \<and> start_after_deadzone (of_int 5) 100 [\<lparr>cursor = 100 + 5, working = True\<rparr>] = DeadzoneWait
   \<and> start_after_deadzone (of_int 5) 100 [\<lparr>cursor = 100 + 5 + 1, working = True\<rparr>] = Tracking"
proof -
  let ?pre = "[\<lparr>cursor = 103, working = True\<rparr>, \<lparr>cursor = 105, working = True\<rparr>]"
  let ?t = "\<lparr>cursor = 106, working = True\<rparr>"
  have a: "\<forall>t\<in>set ?pre. of_int \<bar>100 - cursor t\<bar> \<le> (5 :: rat)"
    by simp
  have b: "(\<forall>t\<in>set ?pre. of_int \<bar>100 - cursor t\<bar> \<le> (5 :: rat) \<and> working t)
             \<and> (5 :: rat) < of_int \<bar>100 - cursor ?t\<bar>"
    by simp
  have c: "(0 :: int) \<le> 5"
    by simp
  show ?thesis
    using deadzone_gating [of ?pre 100 5 ?pre ?t "[]" 5] a b c by blast
qed

section \<open>Properties of angle_iterator.py\<close>

text \<open>
  C3 says that \<open>amount\<close> items are yielded for every \<open>amount > 0\<close>. For
  \<open>amount = 13\<close> the thirteen additions of the double nearest to \<open>360 / 13\<close> end
  just below 360, and the iterator yields fourteen items, the last at angle 360.
\<close>

theorem angle_iterator_13_yields_14:
  "AngleIterator_iter 20 (\<lambda>_ _. ()) \<lparr>center_distance = 0, radius = 0, amount = 13\<rparr>
     = Inr (Some [(0, ()), (28, ()), (55, ()), (83, ()), (111, ()), (138, ()), (166, ()),
                  (194, ()), (222, ()), (249, ()), (277, ()), (305, ()), (332, ()), (360, ())])"
  by (simp add: AngleIterator_iter_def int_truediv_def fadd_def eval_nat_numeral fl_def
      scale_down.simps scale_up.simps py_round_def pow2_def Let_def floor_numeral_div)

text \<open>
  For \<open>amount = 4\<close> every operation is exact and the angles are 0, 90, 180, 270.
\<close>

lemma angle_iterator_4:
  "AngleIterator_iter 20 (\<lambda>_ _. ()) \<lparr>center_distance = 0, radius = 0, amount = 4\<rparr>
     = Inr (Some [(0, ()), (90, ()), (180, ()), (270, ())])"
  by (simp add: AngleIterator_iter_def int_truediv_def fadd_def eval_nat_numeral fl_def
      scale_down.simps scale_up.simps py_round_def pow2_def Let_def floor_numeral_div)

end
